theory Spec2Isabelle
  imports Complex_Main "HOL-Library.Word"
begin

section \<open>The HTTP client as seen by \<open>fetch_gtfs_rt_data\<close>\<close>

text \<open>
  \<open>src/api_handler/fetch_data.py\<close> calls \<open>requests.get(url, timeout=10)\<close> once per
  loop iteration. The call either returns a response or raises. Of a response the code
  reads \<open>headers.get('Content-Type')\<close>, \<open>content\<close> and (for a log line only)
  \<open>status_code\<close>.
\<close>

type_synonym bytes = "8 word list"

record Response =
  status_code :: int
  headers :: "string \<rightharpoonup> string"
  content :: bytes

text \<open>
  The exceptions that travel through the \<open>try\<close> block. The constructors are the Python
  classes; a message is carried where the source builds one. \<open>HTTPError\<close>,
  \<open>ConnectionError\<close>, \<open>Timeout\<close>, \<open>InvalidURL\<close> and \<open>RequestException\<close> are the
  classes of \<open>requests.exceptions\<close>, \<open>DecodeError\<close> is
  \<open>google.protobuf.message.DecodeError\<close>, \<open>ValidationError\<close> is pydantic's, and
  \<open>ValueError\<close> and \<open>Exception\<close> are the builtins.
\<close>

datatype exn =
    HTTPError string
  | ConnectionError
  | Timeout
  | InvalidURL
  | RequestException
  | DecodeError
  | ValidationError
  | ValueError string
  | Exception string

text \<open>
  \<open>isinstance\<close> tests, one per class named in an \<open>except\<close> clause. The subclass
  relation is the libraries': every class of \<open>requests.exceptions\<close> derives from
  \<open>RequestException\<close>; \<open>InvalidURL\<close> derives from \<open>RequestException\<close> and from
  \<open>ValueError\<close>; pydantic's \<open>ValidationError\<close> derives from \<open>ValueError\<close>.
\<close>

fun is_HTTPError :: "exn \<Rightarrow> bool" where
  "is_HTTPError (HTTPError _) = True"
| "is_HTTPError _ = False"

fun is_RequestException :: "exn \<Rightarrow> bool" where
  "is_RequestException (HTTPError _) = True"
| "is_RequestException ConnectionError = True"
| "is_RequestException Timeout = True"
| "is_RequestException InvalidURL = True"
| "is_RequestException RequestException = True"
| "is_RequestException _ = False"

fun is_DecodeError :: "exn \<Rightarrow> bool" where
  "is_DecodeError DecodeError = True"
| "is_DecodeError _ = False"

fun is_ValidationError :: "exn \<Rightarrow> bool" where
  "is_ValidationError ValidationError = True"
| "is_ValidationError _ = False"

fun is_ValueError :: "exn \<Rightarrow> bool" where
  "is_ValueError (ValueError _) = True"
| "is_ValueError InvalidURL = True"
| "is_ValueError ValidationError = True"
| "is_ValueError _ = False"

datatype http_outcome = Returns Response | Raises exn

text \<open>What the caller can observe of one invocation besides its result.\<close>

datatype event = HttpGet | Sleep nat

section \<open>The decoded feed (\<open>gtfs_realtime_pb2\<close>)\<close>

text \<open>
  The protobuf messages the code reads, with the presence of every optional field kept
  (\<open>None\<close>: not on the wire). Field names carry the prefix \<open>pb_\<close>; the names after
  the prefix are the schema's, but for \<open>VehiclePosition.trip\<close> and
  \<open>VehiclePosition.vehicle\<close>, which are \<open>pb_trip_descriptor\<close> and
  \<open>pb_vehicle_descriptor\<close>, for \<open>FeedEntity.id\<close> and \<open>FeedHeader.timestamp\<close>,
  which are \<open>pb_entity_id\<close> and \<open>pb_header_timestamp\<close>, and for the fields of
  \<open>CarriageDetails\<close>. Only the fields the source touches are kept, and the
  per-entity \<open>timestamp\<close> of a vehicle position, which it does not touch.
\<close>

record TripDescriptor =
  pb_trip_id :: "string option"
  pb_route_id :: "string option"
  pb_direction_id :: "nat option"
  pb_start_time :: "string option"
  pb_start_date :: "string option"
  pb_schedule_relationship :: "nat option"

record VehicleDescriptor =
  pb_id :: "string option"
  pb_label :: "string option"
  pb_license_plate :: "string option"

record Position =
  pb_latitude :: "real option"
  pb_longitude :: "real option"
  pb_bearing :: "real option"
  pb_odometer :: "real option"
  pb_speed :: "real option"

record CarriageDetails =
  pb_carriage_id :: "string option"
  pb_carriage_label :: "string option"
  pb_carriage_sequence :: "nat option"

record VehiclePosition =
  pb_trip_descriptor :: "TripDescriptor option"
  pb_vehicle_descriptor :: "VehicleDescriptor option"
  pb_position :: "Position option"
  pb_current_stop_sequence :: "nat option"
  pb_stop_id :: "string option"
  pb_current_status :: "nat option"
  pb_timestamp :: "nat option"
  pb_congestion_level :: "nat option"
  pb_occupancy_status :: "nat option"
  pb_occupancy_percentage :: "nat option"
  pb_multi_carriage_details :: "CarriageDetails list"

record FeedHeader =
  pb_header_timestamp :: "nat option"

text \<open>
  \<open>trip_update\<close> and \<open>alert\<close> are only tested with \<open>HasField\<close>; their content is
  never read, so it is \<open>unit\<close>.
\<close>

record FeedEntity =
  pb_entity_id :: string
  pb_vehicle :: "VehiclePosition option"
  pb_trip_update :: "unit option"
  pb_alert :: "unit option"

record FeedMessage =
  pb_header :: FeedHeader
  pb_entity :: "FeedEntity list"

text \<open>
  Reading a field of a protobuf message in Python (\<open>msg.field\<close>, and so
  \<open>getattr(msg, 'field', None)\<close> for a field of the schema) never fails and never
  gives \<open>None\<close>: a singular field that is not set reads as the default of its type,
  a sub-message that is not set reads as an empty message. \<open>HasField\<close> is the
  presence test.
\<close>

definition read_string :: "string option \<Rightarrow> string" where
  "read_string f = (case f of None \<Rightarrow> [] | Some s \<Rightarrow> s)"

definition read_uint :: "nat option \<Rightarrow> int" where
  "read_uint f = (case f of None \<Rightarrow> 0 | Some n \<Rightarrow> int n)"

definition read_enum :: "nat \<Rightarrow> nat option \<Rightarrow> int" where
  "read_enum dflt f = (case f of None \<Rightarrow> int dflt | Some n \<Rightarrow> int n)"

definition read_float :: "real option \<Rightarrow> real" where
  "read_float f = (case f of None \<Rightarrow> 0 | Some x \<Rightarrow> x)"

definition empty_TripDescriptor :: TripDescriptor where
  "empty_TripDescriptor =
     \<lparr>pb_trip_id = None, pb_route_id = None, pb_direction_id = None,
      pb_start_time = None, pb_start_date = None, pb_schedule_relationship = None\<rparr>"

definition empty_VehicleDescriptor :: VehicleDescriptor where
  "empty_VehicleDescriptor = \<lparr>pb_id = None, pb_label = None, pb_license_plate = None\<rparr>"

definition empty_Position :: Position where
  "empty_Position =
     \<lparr>pb_latitude = None, pb_longitude = None, pb_bearing = None,
      pb_odometer = None, pb_speed = None\<rparr>"

definition read_trip :: "VehiclePosition \<Rightarrow> TripDescriptor" where
  "read_trip v = (case pb_trip_descriptor v of None \<Rightarrow> empty_TripDescriptor | Some t \<Rightarrow> t)"

definition read_vehicle_descriptor :: "VehiclePosition \<Rightarrow> VehicleDescriptor" where
  "read_vehicle_descriptor v =
     (case pb_vehicle_descriptor v of None \<Rightarrow> empty_VehicleDescriptor | Some d \<Rightarrow> d)"

definition read_position :: "VehiclePosition \<Rightarrow> Position" where
  "read_position v = (case pb_position v of None \<Rightarrow> empty_Position | Some p \<Rightarrow> p)"

text \<open>
  The defaults of the enumerations, from \<open>gtfs-realtime.proto\<close>:
  \<open>current_status\<close> declares \<open>[default = IN_TRANSIT_TO]\<close> (2); the other three declare
  none, so their first value (0) is the default.
\<close>

definition IN_TRANSIT_TO :: nat where
  "IN_TRANSIT_TO = 2"

section \<open>The pydantic models (lines 14 to 51)\<close>

text \<open>
  One record per model class, \<open>Optional[T]\<close> as \<open>T option\<close>. Three fields are
  renamed because a record field name is global in a theory: \<open>VehicleInfoModel.id\<close> is
  \<open>info_id\<close>, \<open>VehiclePositionModel.id\<close> is \<open>vp_id\<close> and
  \<open>VehiclePositionModel.vehicle\<close> is \<open>vehicle_info\<close>. In \<open>GTFSRTDataModel\<close> the two
  placeholder dicts, which the code only ever fills with \<open>{}\<close>, are \<open>unit\<close>.
  \<open>multi_carriage_details\<close> holds what line 98 puts there: the protobuf messages.
\<close>

record PositionModel =
  latitude :: "real option"
  longitude :: "real option"
  bearing :: "real option"
  odometer :: "real option"
  speed :: "real option"

record VehicleInfoModel =
  info_id :: "string option"
  label :: "string option"
  license_plate :: "string option"

record TripModel =
  trip_id :: "string option"
  route_id :: "string option"
  direction_id :: "int option"
  start_time :: "string option"
  start_date :: "string option"
  schedule_relationship :: "int option"

record VehiclePositionModel =
  vp_id :: string
  trip :: "TripModel option"
  vehicle_info :: "VehicleInfoModel option"
  position :: "PositionModel option"
  current_stop_sequence :: "int option"
  stop_id :: "string option"
  current_status :: "int option"
  timestamp :: "int option"
  congestion_level :: "int option"
  occupancy_status :: "int option"
  occupancy_percentage :: "int option"
  multi_carriage_details :: "CarriageDetails list"

record GTFSRTDataModel =
  vehicle :: "VehiclePositionModel option"
  trip_update :: "unit option"
  alert :: "unit option"

section \<open>\<open>fetch_gtfs_rt_data\<close>\<close>

subsection \<open>Step 3: extraction and validation (lines 79 to 117)\<close>

text \<open>
  \<open>py_getattr x\<close> is \<open>getattr(msg, field, None)\<close> for a field of the schema that
  reads as \<open>x\<close>: the attribute exists, so the default \<open>None\<close> of \<open>getattr\<close> is not
  used.
\<close>

definition py_getattr :: "'a \<Rightarrow> 'a option" where
  "py_getattr x = Some x"

text \<open>The dict \<open>vehicle_data\<close> of lines 86 to 99, for entity \<open>e\<close> whose vehicle is \<open>v\<close>.\<close>

definition vehicle_data :: "FeedMessage \<Rightarrow> FeedEntity \<Rightarrow> VehiclePosition \<Rightarrow> VehiclePositionModel" where
  "vehicle_data feed e v =
     \<lparr>vp_id = pb_entity_id e,
      trip = Some
        \<lparr>trip_id = py_getattr (read_string (pb_trip_id (read_trip v))),
         route_id = py_getattr (read_string (pb_route_id (read_trip v))),
         direction_id = py_getattr (read_uint (pb_direction_id (read_trip v))),
         start_time = py_getattr (read_string (pb_start_time (read_trip v))),
         start_date = py_getattr (read_string (pb_start_date (read_trip v))),
         schedule_relationship =
           py_getattr (read_enum 0 (pb_schedule_relationship (read_trip v)))\<rparr>,
      vehicle_info = Some
        \<lparr>info_id = py_getattr (read_string (pb_id (read_vehicle_descriptor v))),
         label = py_getattr (read_string (pb_label (read_vehicle_descriptor v))),
         license_plate =
           py_getattr (read_string (pb_license_plate (read_vehicle_descriptor v)))\<rparr>,
      position = Some
        \<lparr>latitude = py_getattr (read_float (pb_latitude (read_position v))),
         longitude = py_getattr (read_float (pb_longitude (read_position v))),
         bearing = py_getattr (read_float (pb_bearing (read_position v))),
         odometer = py_getattr (read_float (pb_odometer (read_position v))),
         speed = py_getattr (read_float (pb_speed (read_position v)))\<rparr>,
      current_stop_sequence = py_getattr (read_uint (pb_current_stop_sequence v)),
      stop_id = py_getattr (read_string (pb_stop_id v)),
      current_status = py_getattr (read_enum IN_TRANSIT_TO (pb_current_status v)),
      timestamp = py_getattr (read_uint (pb_header_timestamp (pb_header feed))),
      congestion_level = py_getattr (read_enum 0 (pb_congestion_level v)),
      occupancy_status = py_getattr (read_enum 0 (pb_occupancy_status v)),
      occupancy_percentage = py_getattr (read_uint (pb_occupancy_percentage v)),
      multi_carriage_details =
        (if pb_multi_carriage_details v \<noteq> [] then pb_multi_carriage_details v else [])\<rparr>"

text \<open>
  The body of the loop over \<open>feed.entity\<close> (lines 82 to 113). \<open>valid d\<close> says that
  \<open>VehiclePositionModel(**d)\<close> raises no \<open>ValidationError\<close>; pydantic is a
  parameter of the model. Every value of \<open>d\<close> already has its declared type, so the
  dump of the validated model is \<open>d\<close>.

  The handler of lines 105 to 107 calls \<open>e.json()\<close> for the log line before it
  raises \<open>e\<close> again. \<open>error_json d\<close> is that call for the error of record \<open>d\<close>:
  \<open>None\<close> when it returns (the text is only logged), \<open>Some msg\<close> when it raises,
  which pydantic does with a \<open>ValueError\<close>. That exception then leaves the handler
  in place of the \<open>ValidationError\<close>.
\<close>

definition inner_handler :: "(VehiclePositionModel \<Rightarrow> string option) \<Rightarrow> VehiclePositionModel \<Rightarrow> exn" where
  "inner_handler error_json d =
     (case error_json d of
        Some msg \<Rightarrow> ValueError msg
      | None \<Rightarrow> ValidationError)"

definition process_entity ::
  "(VehiclePositionModel \<Rightarrow> bool) \<Rightarrow> (VehiclePositionModel \<Rightarrow> string option) \<Rightarrow> FeedMessage
     \<Rightarrow> FeedEntity \<Rightarrow> GTFSRTDataModel \<Rightarrow> exn + GTFSRTDataModel" where
  "process_entity valid error_json feed e result =
     (case
        (case pb_vehicle e of
           None \<Rightarrow> Inr result
         | Some v \<Rightarrow>
             (if valid (vehicle_data feed e v)
              then Inr (result\<lparr>vehicle := Some (vehicle_data feed e v)\<rparr>)
              else Inl (inner_handler error_json (vehicle_data feed e v))))
      of
        Inl err \<Rightarrow> Inl err
      | Inr r1 \<Rightarrow>
          Inr ((if pb_alert e \<noteq> None then (\<lambda>r. r\<lparr>alert := Some ()\<rparr>) else (\<lambda>r. r))
                 ((if pb_trip_update e \<noteq> None then (\<lambda>r. r\<lparr>trip_update := Some ()\<rparr>)
                   else (\<lambda>r. r)) r1)))"

fun entity_loop ::
  "(VehiclePositionModel \<Rightarrow> bool) \<Rightarrow> (VehiclePositionModel \<Rightarrow> string option) \<Rightarrow> FeedMessage
     \<Rightarrow> FeedEntity list \<Rightarrow> GTFSRTDataModel \<Rightarrow> exn + GTFSRTDataModel" where
  "entity_loop valid error_json feed [] result = Inr result"
| "entity_loop valid error_json feed (e # es) result =
     (case process_entity valid error_json feed e result of
        Inl err \<Rightarrow> Inl err
      | Inr result' \<Rightarrow> entity_loop valid error_json feed es result')"

text \<open>
  \<open>GTFSRTDataModel(**result)\<close> (line 115) validates the three slots again; only the
  vehicle slot has a schema.
\<close>

definition validate_result ::
  "(VehiclePositionModel \<Rightarrow> bool) \<Rightarrow> GTFSRTDataModel \<Rightarrow> exn + GTFSRTDataModel" where
  "validate_result valid result =
     (case vehicle result of
        None \<Rightarrow> Inr result
      | Some d \<Rightarrow> (if valid d then Inr result else Inl ValidationError))"

definition extract_and_validate ::
  "(VehiclePositionModel \<Rightarrow> bool) \<Rightarrow> (VehiclePositionModel \<Rightarrow> string option) \<Rightarrow> FeedMessage
     \<Rightarrow> exn + GTFSRTDataModel" where
  "extract_and_validate valid error_json feed =
     (case entity_loop valid error_json feed (pb_entity feed)
             \<lparr>vehicle = None, trip_update = None, alert = None\<rparr> of
        Inl err \<Rightarrow> Inl err
      | Inr result \<Rightarrow> validate_result valid result)"

subsection \<open>The \<open>try\<close> block (lines 56 to 117)\<close>

definition content_type_message :: "string option \<Rightarrow> string" where
  "content_type_message ct =
     ''Unexpected content type: '' @ (case ct of None \<Rightarrow> ''None'' | Some s \<Rightarrow> s)"

text \<open>
  \<open>parse\<close> is \<open>FeedMessage.ParseFromString\<close>: \<open>None\<close> when it raises
  \<open>DecodeError\<close>. The result is the exception that leaves the \<open>try\<close> block
  (\<open>Inl\<close>) or the value of the \<open>return\<close> on line 117 (\<open>Inr\<close>).
\<close>

definition try_block ::
  "(bytes \<Rightarrow> FeedMessage option) \<Rightarrow> (VehiclePositionModel \<Rightarrow> bool)
     \<Rightarrow> (VehiclePositionModel \<Rightarrow> string option) \<Rightarrow> http_outcome \<Rightarrow> exn + GTFSRTDataModel" where
  "try_block parse valid error_json outcome =
     (case outcome of
        Raises err \<Rightarrow> Inl err
      | Returns response \<Rightarrow>
          (if headers response ''Content-Type'' \<noteq> Some ''application/x-protobuf''
           then Inl (ValueError (content_type_message (headers response ''Content-Type'')))
           else if content response = []
           then Inl (Exception ''No valid GTFS RT data found'')
           else
             (case parse (content response) of
                None \<Rightarrow> Inl DecodeError
              | Some feed \<Rightarrow> extract_and_validate valid error_json feed)))"

subsection \<open>The \<open>except\<close> clauses (lines 119 to 152)\<close>

datatype handled = Raise exn | SleepAndContinue

text \<open>
  The clauses in the order of the source; the first whose class matches runs. The
  last clause sleeps and falls off the end of the loop body, which is the next
  iteration as well.
\<close>

definition except_clauses :: "exn \<Rightarrow> int \<Rightarrow> nat \<Rightarrow> handled" where
  "except_clauses err retries attempt =
     (if is_HTTPError err then
        (case err of
           HTTPError msg \<Rightarrow> Raise (Exception (''Error fetching GTFS RT data: '' @ msg))
         | _ \<Rightarrow> Raise err)
      else if is_RequestException err then
        (if int attempt < retries - 1 then SleepAndContinue else Raise err)
      else if is_DecodeError err then Raise err
      else if is_ValidationError err then Raise err
      else if is_ValueError err then Raise err
      else
        (if int attempt < retries - 1 then SleepAndContinue else Raise err))"

subsection \<open>The retry loop (line 54)\<close>

text \<open>
  \<open>get k\<close> is what the call of \<open>requests.get\<close> in iteration \<open>k\<close> does. The loop
  runs over the attempts of \<open>range(retries)\<close> and gives the events in order with the
  outcome: \<open>Inl\<close> the exception raised to the caller, \<open>Inr (Some r)\<close> the value
  returned, \<open>Inr None\<close> when the loop ends without either (Python then returns
  \<open>None\<close>).
\<close>

fun for_attempt ::
  "(nat \<Rightarrow> http_outcome) \<Rightarrow> (bytes \<Rightarrow> FeedMessage option) \<Rightarrow> (VehiclePositionModel \<Rightarrow> bool)
     \<Rightarrow> (VehiclePositionModel \<Rightarrow> string option) \<Rightarrow> int \<Rightarrow> nat list
     \<Rightarrow> event list \<times> (exn + GTFSRTDataModel option)" where
  "for_attempt get parse valid error_json retries [] = ([], Inr None)"
| "for_attempt get parse valid error_json retries (attempt # rest) =
     (case try_block parse valid error_json (get attempt) of
        Inr result \<Rightarrow> ([HttpGet], Inr (Some result))
      | Inl err \<Rightarrow>
          (case except_clauses err retries attempt of
             Raise err' \<Rightarrow> ([HttpGet], Inl err')
           | SleepAndContinue \<Rightarrow>
               (HttpGet # Sleep 2 # fst (for_attempt get parse valid error_json retries rest),
                snd (for_attempt get parse valid error_json retries rest))))"

definition py_range :: "int \<Rightarrow> nat list" where
  "py_range n = [0..<nat n]"

definition fetch_gtfs_rt_data ::
  "(nat \<Rightarrow> http_outcome) \<Rightarrow> (bytes \<Rightarrow> FeedMessage option) \<Rightarrow> (VehiclePositionModel \<Rightarrow> bool)
     \<Rightarrow> (VehiclePositionModel \<Rightarrow> string option) \<Rightarrow> int
     \<Rightarrow> event list \<times> (exn + GTFSRTDataModel option)" where
  "fetch_gtfs_rt_data get parse valid error_json retries =
     for_attempt get parse valid error_json retries (py_range retries)"

section \<open>Notions used in the statements\<close>

text \<open>
  \<open>backoff n\<close> is what the caller sees of \<open>n\<close> attempts that were retried: a
  request and the two-second sleep, \<open>n\<close> times.
\<close>

definition backoff :: "nat \<Rightarrow> event list" where
  "backoff n = concat (replicate n [HttpGet, Sleep 2])"

text \<open>
  The outcomes of \<open>requests.get\<close> that end in one of the two retrying clauses: an
  exception of class \<open>RequestException\<close> but not \<open>HTTPError\<close>, an exception of none
  of the classes named before the last clause, and a response with the required content
  type and an empty body.
\<close>

definition retryable :: "http_outcome \<Rightarrow> bool" where
  "retryable outcome =
     (case outcome of
        Raises err \<Rightarrow>
          \<not> is_HTTPError err \<and>
          (is_RequestException err \<or>
           \<not> (is_DecodeError err \<or> is_ValidationError err \<or> is_ValueError err))
      | Returns response \<Rightarrow>
          headers response ''Content-Type'' = Some ''application/x-protobuf'' \<and>
          content response = [])"

text \<open>A network error: a \<open>RequestException\<close> that is not an \<open>HTTPError\<close>.\<close>

definition network_error :: "http_outcome \<Rightarrow> bool" where
  "network_error outcome =
     (case outcome of
        Raises err \<Rightarrow> is_RequestException err \<and> \<not> is_HTTPError err
      | Returns response \<Rightarrow> False)"

text \<open>A response with the required content type and a zero-length body.\<close>

definition empty_body :: "http_outcome \<Rightarrow> bool" where
  "empty_body outcome =
     (case outcome of
        Raises err \<Rightarrow> False
      | Returns response \<Rightarrow>
          headers response ''Content-Type'' = Some ''application/x-protobuf'' \<and>
          content response = [])"

text \<open>
  A response that passes both checks of the envelope (lines 61 and 65) and whose body
  parses to \<open>feed\<close>.
\<close>

definition delivers :: "(bytes \<Rightarrow> FeedMessage option) \<Rightarrow> http_outcome \<Rightarrow> FeedMessage \<Rightarrow> bool" where
  "delivers parse outcome feed =
     (case outcome of
        Raises err \<Rightarrow> False
      | Returns response \<Rightarrow>
          headers response ''Content-Type'' = Some ''application/x-protobuf'' \<and>
          content response \<noteq> [] \<and> parse (content response) = Some feed)"

text \<open>
  The mapped records of the vehicle-tagged entities among \<open>es\<close>, in feed order, and
  the two ways the loop leaves a slot of the result: the last value written, or the
  placeholder once some entity has the field.
\<close>

definition vehicle_records :: "FeedMessage \<Rightarrow> FeedEntity list \<Rightarrow> VehiclePositionModel list" where
  "vehicle_records feed es =
     concat (map (\<lambda>e. case pb_vehicle e of None \<Rightarrow> [] | Some v \<Rightarrow> [vehicle_data feed e v]) es)"

definition last_option :: "'a list \<Rightarrow> 'a option" where
  "last_option xs = (if xs = [] then None else Some (last xs))"

definition placeholder :: "(FeedEntity \<Rightarrow> unit option) \<Rightarrow> FeedEntity list \<Rightarrow> unit option" where
  "placeholder field es = (if list_ex (\<lambda>e. field e \<noteq> None) es then Some () else None)"

section \<open>Concrete inputs\<close>

text \<open>
  Responses as the tests of \<open>tests/test_fetch_data.py\<close> build them, with the status
  as a parameter.
\<close>

definition protobuf_response :: "int \<Rightarrow> bytes \<Rightarrow> Response" where
  "protobuf_response status body =
     \<lparr>status_code = status,
      headers = [''Content-Type'' \<mapsto> ''application/x-protobuf''],
      content = body\<rparr>"

definition html_response :: Response where
  "html_response =
     \<lparr>status_code = 200, headers = [''Content-Type'' \<mapsto> ''text/html''], content = [60, 104]\<rparr>"

text \<open>
  Scripts for \<open>requests.get\<close>: the same outcome at every call, or a list of
  outcomes to go through in order and one for every call after them.
\<close>

definition always :: "http_outcome \<Rightarrow> nat \<Rightarrow> http_outcome" where
  "always outcome k = outcome"

definition replay :: "http_outcome list \<Rightarrow> http_outcome \<Rightarrow> nat \<Rightarrow> http_outcome" where
  "replay side_effect rest k = (if k < length side_effect then side_effect ! k else rest)"

text \<open>
  A parser that takes no body, and a validator that takes a record with no carriage
  details (an empty list is a \<open>List[dict]\<close>; a protobuf message is not a
  \<open>dict\<close>).
\<close>

definition no_feed :: "bytes \<Rightarrow> FeedMessage option" where
  "no_feed body = None"

definition dict_list_only :: "VehiclePositionModel \<Rightarrow> bool" where
  "dict_list_only d = (multi_carriage_details d = [])"

text \<open>
  Stand-ins for \<open>e.json()\<close>: one that always returns, and one that raises on the
  error of a record whose \<open>stop_id\<close> is the single byte \<open>0xFF\<close>, which is not
  UTF-8, with a validator that rejects that record. The text of the message is the
  library's; \<open>json_failure\<close> stands for it.
\<close>

definition json_text :: "VehiclePositionModel \<Rightarrow> string option" where
  "json_text d = None"

definition undecodable :: string where
  "undecodable = [CHR 0xFF]"

definition json_failure :: string where
  "json_failure = ''Error serializing ValidationError to JSON''"

definition utf8_only :: "VehiclePositionModel \<Rightarrow> bool" where
  "utf8_only d = (stop_id d \<noteq> Some undecodable)"

definition json_utf8 :: "VehiclePositionModel \<Rightarrow> string option" where
  "json_utf8 d = (if stop_id d = Some undecodable then Some json_failure else None)"

text \<open>
  Feeds: a vehicle position with no field set, entities that carry a vehicle only, a
  feed of two vehicles that differ in their own timestamps, and a feed whose first
  vehicle has carriage details, and a feed whose first vehicle has a \<open>stop_id\<close>
  that is not UTF-8. \<open>sample_parse\<close> stands for the decoder on three bodies.
\<close>

definition bare_vehicle :: VehiclePosition where
  "bare_vehicle =
     \<lparr>pb_trip_descriptor = None, pb_vehicle_descriptor = None, pb_position = None,
      pb_current_stop_sequence = None, pb_stop_id = None, pb_current_status = None,
      pb_timestamp = None, pb_congestion_level = None, pb_occupancy_status = None,
      pb_occupancy_percentage = None, pb_multi_carriage_details = []\<rparr>"

definition vehicle_entity :: "string \<Rightarrow> VehiclePosition \<Rightarrow> FeedEntity" where
  "vehicle_entity i v =
     \<lparr>pb_entity_id = i, pb_vehicle = Some v, pb_trip_update = None, pb_alert = None\<rparr>"

definition vehicle_a :: VehiclePosition where
  "vehicle_a = bare_vehicle\<lparr>pb_timestamp := Some 5\<rparr>"

definition vehicle_b :: VehiclePosition where
  "vehicle_b = bare_vehicle\<lparr>pb_stop_id := Some ''S1'', pb_timestamp := Some 6\<rparr>"

definition vehicle_c :: VehiclePosition where
  "vehicle_c = bare_vehicle\<lparr>pb_multi_carriage_details :=
     [\<lparr>pb_carriage_id = Some ''c1'', pb_carriage_label = None, pb_carriage_sequence = Some 1\<rparr>]\<rparr>"

definition vehicle_u :: VehiclePosition where
  "vehicle_u = bare_vehicle\<lparr>pb_stop_id := Some undecodable\<rparr>"

definition two_vehicle_feed :: FeedMessage where
  "two_vehicle_feed =
     \<lparr>pb_header = \<lparr>pb_header_timestamp = Some 1700000000\<rparr>,
      pb_entity = [vehicle_entity ''a'' vehicle_a, vehicle_entity ''b'' vehicle_b]\<rparr>"

definition carriage_feed :: FeedMessage where
  "carriage_feed =
     \<lparr>pb_header = \<lparr>pb_header_timestamp = Some 1700000000\<rparr>,
      pb_entity = [vehicle_entity ''c'' vehicle_c, vehicle_entity ''a'' vehicle_a]\<rparr>"

definition undecodable_feed :: FeedMessage where
  "undecodable_feed =
     \<lparr>pb_header = \<lparr>pb_header_timestamp = Some 1700000000\<rparr>,
      pb_entity = [vehicle_entity ''u'' vehicle_u, vehicle_entity ''a'' vehicle_a]\<rparr>"

definition sample_parse :: "bytes \<Rightarrow> FeedMessage option" where
  "sample_parse body =
     (if body = [1] then Some two_vehicle_feed
      else if body = [2] then Some carriage_feed
      else if body = [3] then Some undecodable_feed
      else None)"

section \<open>The retry loop, one attempt at a time\<close>

lemma backoff_Suc: "backoff (Suc n) = HttpGet # Sleep 2 # backoff n"
  by (simp add: backoff_def)

lemma backoff_0: "backoff 0 = []"
  by (simp add: backoff_def)

lemma retryable_handled:
  assumes "retryable outcome" and "int k < retries - 1"
  shows "\<exists>err. try_block parse valid error_json outcome = Inl err \<and>
           except_clauses err retries k = SleepAndContinue"
proof (cases outcome)
  case (Returns response)
  with assms show ?thesis
    by (simp add: retryable_def try_block_def except_clauses_def)
next
  case (Raises err)
  with assms show ?thesis
    by (cases err) (simp_all add: retryable_def try_block_def except_clauses_def)
qed

lemma for_attempt_retry:
  assumes "retryable (get k)" and "int k < retries - 1"
  shows "for_attempt get parse valid error_json retries (k # rest) =
           (HttpGet # Sleep 2 # fst (for_attempt get parse valid error_json retries rest),
            snd (for_attempt get parse valid error_json retries rest))"
proof -
  from retryable_handled [OF assms] obtain err where
    "try_block parse valid error_json (get k) = Inl err"
    "except_clauses err retries k = SleepAndContinue"
    by blast
  then show ?thesis by simp
qed

lemma for_attempt_prefix:
  assumes "list_all (\<lambda>j. retryable (get j) \<and> int j < retries - 1) ks"
  shows "for_attempt get parse valid error_json retries (ks @ rest) =
           (backoff (length ks) @ fst (for_attempt get parse valid error_json retries rest),
            snd (for_attempt get parse valid error_json retries rest))"
  using assms
proof (induction ks)
  case Nil
  show ?case by (simp add: backoff_0)
next
  case (Cons k ks)
  then have step: "retryable (get k)" "int k < retries - 1" and
    tail: "list_all (\<lambda>j. retryable (get j) \<and> int j < retries - 1) ks"
    by simp_all
  show ?case
    using for_attempt_retry [of get k retries parse valid error_json "ks @ rest"] step Cons.IH [OF tail]
    by (simp add: backoff_Suc)
qed

lemma fetch_at:
  assumes "\<forall>j<k. retryable (get j)" and "int k < retries"
  shows "fetch_gtfs_rt_data get parse valid error_json retries =
           (backoff k @ fst (for_attempt get parse valid error_json retries (k # [Suc k..<nat retries])),
            snd (for_attempt get parse valid error_json retries (k # [Suc k..<nat retries])))"
proof -
  from assms(2) have kn: "k < nat retries" by linarith
  have "[0..<nat retries] = [0..<k] @ [k..<nat retries]"
    using kn upt_add_eq_append [of 0 k "nat retries - k"] by simp
  moreover have "[k..<nat retries] = k # [Suc k..<nat retries]"
    using kn by (rule upt_conv_Cons)
  ultimately have split: "[0..<nat retries] = [0..<k] @ k # [Suc k..<nat retries]"
    by simp
  have "list_all (\<lambda>j. retryable (get j) \<and> int j < retries - 1) [0..<k]"
    using assms by (auto simp: list_all_iff)
  from for_attempt_prefix [OF this, of parse valid error_json "k # [Suc k..<nat retries]"]
  show ?thesis
    by (simp add: fetch_gtfs_rt_data_def py_range_def split)
qed

lemma find_rejected_None:
  "(find (\<lambda>d. \<not> valid d) xs = None) = list_all valid xs"
  by (auto simp: find_None_iff list_all_iff)

lemma vehicle_records_Nil: "vehicle_records feed [] = []"
  by (simp add: vehicle_records_def)

lemma vehicle_records_Cons:
  "vehicle_records feed (e # es) =
     (case pb_vehicle e of None \<Rightarrow> [] | Some v \<Rightarrow> [vehicle_data feed e v]) @
     vehicle_records feed es"
  by (simp add: vehicle_records_def)

lemma entity_loop_result:
  "entity_loop valid error_json feed es result =
     (case find (\<lambda>d. \<not> valid d) (vehicle_records feed es) of
        None \<Rightarrow>
          Inr \<lparr>vehicle = (if vehicle_records feed es = [] then vehicle result
                          else Some (last (vehicle_records feed es))),
               trip_update = (if list_ex (\<lambda>e. pb_trip_update e \<noteq> None) es then Some ()
                              else trip_update result),
               alert = (if list_ex (\<lambda>e. pb_alert e \<noteq> None) es then Some ()
                        else alert result)\<rparr>
      | Some d \<Rightarrow> Inl (inner_handler error_json d))"
proof (induction es arbitrary: result)
  case Nil
  show ?case by (simp add: vehicle_records_Nil)
next
  case (Cons e es)
  show ?case
  proof (cases "pb_vehicle e")
    case None
    then show ?thesis
      by (cases "find (\<lambda>d. \<not> valid d) (vehicle_records feed es)")
        (simp_all add: Cons.IH process_entity_def vehicle_records_Cons)
  next
    case (Some v)
    show ?thesis
    proof (cases "valid (vehicle_data feed e v)")
      case False
      with Some show ?thesis
        by (simp add: process_entity_def vehicle_records_Cons)
    next
      case True
      with Some show ?thesis
        by (cases "find (\<lambda>d. \<not> valid d) (vehicle_records feed es)")
          (simp_all add: Cons.IH process_entity_def vehicle_records_Cons)
    qed
  qed
qed

lemma extract_and_validate_result:
  "extract_and_validate valid error_json feed =
     (case find (\<lambda>d. \<not> valid d) (vehicle_records feed (pb_entity feed)) of
        None \<Rightarrow>
          Inr \<lparr>vehicle = last_option (vehicle_records feed (pb_entity feed)),
               trip_update = placeholder pb_trip_update (pb_entity feed),
               alert = placeholder pb_alert (pb_entity feed)\<rparr>
      | Some d \<Rightarrow> Inl (inner_handler error_json d))"
proof (cases "find (\<lambda>d. \<not> valid d) (vehicle_records feed (pb_entity feed))")
  case (Some d)
  then show ?thesis
    by (simp add: extract_and_validate_def entity_loop_result)
next
  case None
  then have "list_all valid (vehicle_records feed (pb_entity feed))"
    by (simp add: find_rejected_None)
  then have "vehicle_records feed (pb_entity feed) \<noteq> [] \<Longrightarrow>
      valid (last (vehicle_records feed (pb_entity feed)))"
    by (simp add: list_all_iff)
  with None show ?thesis
    by (simp add: extract_and_validate_def entity_loop_result validate_result_def
        last_option_def placeholder_def)
qed

lemma inner_handler_fatal:
  "except_clauses (inner_handler error_json d) retries k = Raise (inner_handler error_json d)"
  by (simp add: inner_handler_def except_clauses_def split: option.splits)

lemma try_block_delivers:
  "delivers parse outcome feed \<Longrightarrow> try_block parse valid error_json outcome = extract_and_validate valid error_json feed"
  by (cases outcome) (simp_all add: delivers_def try_block_def)

lemma network_error_retryable: "network_error outcome \<Longrightarrow> retryable outcome"
  by (cases outcome) (simp_all add: network_error_def retryable_def)

lemma empty_body_retryable: "empty_body outcome \<Longrightarrow> retryable outcome"
  by (cases outcome) (simp_all add: empty_body_def retryable_def)

lemma for_attempt_raise:
  assumes "try_block parse valid error_json (get k) = Inl err"
    and "except_clauses err retries k = Raise err'"
  shows "for_attempt get parse valid error_json retries (k # rest) = ([HttpGet], Inl err')"
  using assms by simp

lemma for_attempt_return:
  assumes "try_block parse valid error_json (get k) = Inr result"
  shows "for_attempt get parse valid error_json retries (k # rest) = ([HttpGet], Inr (Some result))"
  using assms by simp

lemma try_block_content_type:
  assumes "outcome = Returns response"
    and "headers response ''Content-Type'' \<noteq> Some ''application/x-protobuf''"
  shows "try_block parse valid error_json outcome =
           Inl (ValueError (content_type_message (headers response ''Content-Type'')))"
  using assms by (simp add: try_block_def)

lemma except_clauses_last:
  assumes "\<not> int k < retries - 1" and "\<not> is_HTTPError err"
  shows "except_clauses err retries k = Raise err"
  using assms by (simp add: except_clauses_def)

lemma fetch_last_attempt:
  assumes "0 < retries"
    and "\<forall>j<nat retries - 1. retryable (get j)"
    and "try_block parse valid error_json (get (nat retries - 1)) = Inl err"
    and "\<not> is_HTTPError err"
  shows "fetch_gtfs_rt_data get parse valid error_json retries =
           (backoff (nat retries - 1) @ [HttpGet], Inl err)"
proof -
  from assms(1) have k: "int (nat retries - 1) < retries" and
    last: "\<not> int (nat retries - 1) < retries - 1"
    by linarith+
  have "for_attempt get parse valid error_json retries
          ((nat retries - 1) # [Suc (nat retries - 1)..<nat retries]) = ([HttpGet], Inl err)"
    using assms(3) except_clauses_last [OF last assms(4)] by (rule for_attempt_raise)
  with fetch_at [OF assms(2) k, of parse valid error_json] show ?thesis
    by simp
qed

lemma try_block_empty_body:
  "empty_body outcome \<Longrightarrow>
     try_block parse valid error_json outcome = Inl (Exception ''No valid GTFS RT data found'')"
  by (cases outcome) (simp_all add: empty_body_def try_block_def)

lemma try_block_Raises: "try_block parse valid error_json (Raises err) = Inl err"
  by (simp add: try_block_def)

lemma three_attempts: "backoff 2 @ [HttpGet] = [HttpGet, Sleep 2, HttpGet, Sleep 2, HttpGet]"
  by (simp add: backoff_def numeral_2_eq_2)

lemma fetch_delivers:
  assumes "\<forall>j<k. retryable (get j)"
    and "int k < retries"
    and "delivers parse (get k) feed"
  shows "fetch_gtfs_rt_data get parse valid error_json retries =
           (backoff k @ [HttpGet],
            case find (\<lambda>d. \<not> valid d) (vehicle_records feed (pb_entity feed)) of
              None \<Rightarrow>
                Inr (Some \<lparr>vehicle = last_option (vehicle_records feed (pb_entity feed)),
                           trip_update = placeholder pb_trip_update (pb_entity feed),
                           alert = placeholder pb_alert (pb_entity feed)\<rparr>)
            | Some d \<Rightarrow> Inl (inner_handler error_json d))"
proof (cases "find (\<lambda>d. \<not> valid d) (vehicle_records feed (pb_entity feed))")
  case None
  then have "try_block parse valid error_json (get k) =
      Inr \<lparr>vehicle = last_option (vehicle_records feed (pb_entity feed)),
           trip_update = placeholder pb_trip_update (pb_entity feed),
           alert = placeholder pb_alert (pb_entity feed)\<rparr>"
    by (simp add: try_block_delivers [OF assms(3)] extract_and_validate_result)
  then have "for_attempt get parse valid error_json retries (k # [Suc k..<nat retries]) =
      ([HttpGet], Inr (Some \<lparr>vehicle = last_option (vehicle_records feed (pb_entity feed)),
           trip_update = placeholder pb_trip_update (pb_entity feed),
           alert = placeholder pb_alert (pb_entity feed)\<rparr>))"
    by (rule for_attempt_return)
  with None fetch_at [OF assms(1,2), of parse valid error_json] show ?thesis
    by simp
next
  case (Some d)
  then have "try_block parse valid error_json (get k) = Inl (inner_handler error_json d)"
    by (simp add: try_block_delivers [OF assms(3)] extract_and_validate_result)
  then have "for_attempt get parse valid error_json retries (k # [Suc k..<nat retries]) =
      ([HttpGet], Inl (inner_handler error_json d))"
    using inner_handler_fatal by (rule for_attempt_raise)
  with Some fetch_at [OF assms(1,2), of parse valid error_json] show ?thesis
    by simp
qed

lemma try_block_Inr:
  assumes "try_block parse valid error_json outcome = Inr result"
  shows "\<exists>feed. delivers parse outcome feed \<and> extract_and_validate valid error_json feed = Inr result"
proof (cases outcome)
  case (Raises err)
  with assms show ?thesis by (simp add: try_block_def)
next
  case (Returns response)
  with assms show ?thesis
    by (simp add: try_block_def delivers_def split: if_splits option.splits)
qed

lemma extract_and_validate_Inr:
  assumes "extract_and_validate valid error_json feed = Inr result"
  shows "list_all valid (vehicle_records feed (pb_entity feed))"
    and "result = \<lparr>vehicle = last_option (vehicle_records feed (pb_entity feed)),
                     trip_update = placeholder pb_trip_update (pb_entity feed),
                     alert = placeholder pb_alert (pb_entity feed)\<rparr>"
proof -
  from assms have none: "find (\<lambda>d. \<not> valid d) (vehicle_records feed (pb_entity feed)) = None"
    by (simp add: extract_and_validate_result split: option.splits)
  then show "list_all valid (vehicle_records feed (pb_entity feed))"
    by (simp add: find_rejected_None)
  from assms none
  show "result = \<lparr>vehicle = last_option (vehicle_records feed (pb_entity feed)),
                   trip_update = placeholder pb_trip_update (pb_entity feed),
                   alert = placeholder pb_alert (pb_entity feed)\<rparr>"
    by (simp add: extract_and_validate_result)
qed

lemma validate_result_again:
  assumes "extract_and_validate valid error_json feed = Inr result"
  shows "validate_result valid result = Inr result"
proof -
  have "vehicle result = Some d \<Longrightarrow> valid d" for d
    using extract_and_validate_Inr [OF assms]
    by (auto simp: last_option_def list_all_iff split: if_splits)
  then show ?thesis
    by (cases "vehicle result") (simp_all add: validate_result_def)
qed

lemma except_clauses_continue:
  "except_clauses err retries k = SleepAndContinue \<Longrightarrow> int k < retries - 1"
  by (cases err) (simp_all add: except_clauses_def split: if_splits)

lemma for_attempt_success:
  assumes "for_attempt get parse valid error_json retries ks = (trace, Inr (Some result))"
  shows "\<exists>pre k post. ks = pre @ k # post \<and> try_block parse valid error_json (get k) = Inr result \<and>
           trace = backoff (length pre) @ [HttpGet]"
  using assms
proof (induction ks arbitrary: trace)
  case Nil
  then show ?case by simp
next
  case (Cons k ks)
  show ?case
  proof (cases "try_block parse valid error_json (get k)")
    case (Inr r)
    with Cons.prems have "r = result" "trace = [HttpGet]"
      by simp_all
    with Inr have "k # ks = [] @ k # ks \<and> try_block parse valid error_json (get k) = Inr result \<and>
        trace = backoff (length ([] :: nat list)) @ [HttpGet]"
      by (simp add: backoff_0)
    then show ?thesis by blast
  next
    case (Inl err)
    show ?thesis
    proof (cases "except_clauses err retries k")
      case (Raise err')
      with Inl Cons.prems show ?thesis by simp
    next
      case SleepAndContinue
      with Inl Cons.prems obtain tr where
        tr: "for_attempt get parse valid error_json retries ks = (tr, Inr (Some result))" and
        trace: "trace = HttpGet # Sleep 2 # tr"
        by (cases "for_attempt get parse valid error_json retries ks") simp
      from Cons.IH [OF tr] obtain pre j post where
        "ks = pre @ j # post" "try_block parse valid error_json (get j) = Inr result"
        "tr = backoff (length pre) @ [HttpGet]"
        by blast
      with trace have "k # ks = (k # pre) @ j # post \<and>
          try_block parse valid error_json (get j) = Inr result \<and>
          trace = backoff (length (k # pre)) @ [HttpGet]"
        by (simp add: backoff_Suc)
      then show ?thesis by blast
    qed
  qed
qed

lemma for_attempt_None:
  assumes "snd (for_attempt get parse valid error_json retries ks) = Inr None"
  shows "ks = [] \<or> int (last ks) < retries - 1"
  using assms
proof (induction ks)
  case Nil
  show ?case by simp
next
  case (Cons k ks)
  show ?case
  proof (cases "try_block parse valid error_json (get k)")
    case (Inr r)
    with Cons.prems show ?thesis by simp
  next
    case (Inl err)
    show ?thesis
    proof (cases "except_clauses err retries k")
      case (Raise err')
      with Inl Cons.prems show ?thesis by simp
    next
      case SleepAndContinue
      with Inl Cons.prems have "snd (for_attempt get parse valid error_json retries ks) = Inr None"
        by simp
      with Cons.IH have "ks = [] \<or> int (last ks) < retries - 1"
        by simp
      with except_clauses_continue [OF SleepAndContinue] show ?thesis
        by auto
    qed
  qed
qed

lemma upt_split_index:
  assumes "[0..<n] = pre @ k # post"
  shows "k = length pre" and "k < n"
proof -
  from assms have "length [0..<n] = length (pre @ k # post)"
    by simp
  then have len: "length pre < n"
    by simp
  then have "[0..<n] ! length pre = length pre"
    by simp
  with assms show "k = length pre"
    by simp
  with len show "k < n"
    by simp
qed

lemma fetch_success:
  assumes "fetch_gtfs_rt_data get parse valid error_json retries = (trace, Inr (Some result))"
  shows "\<exists>k feed. int k < retries \<and> trace = backoff k @ [HttpGet] \<and>
           delivers parse (get k) feed \<and> extract_and_validate valid error_json feed = Inr result"
proof -
  from assms for_attempt_success [of get parse valid error_json retries "[0..<nat retries]" trace result]
  obtain pre k post where
    split: "[0..<nat retries] = pre @ k # post" and
    ok: "try_block parse valid error_json (get k) = Inr result" and
    trace: "trace = backoff (length pre) @ [HttpGet]"
    by (auto simp: fetch_gtfs_rt_data_def py_range_def)
  from upt_split_index [OF split] have "k = length pre" "int k < retries"
    by simp_all
  with trace try_block_Inr [OF ok] show ?thesis
    by blast
qed

lemma fetch_not_None:
  assumes "0 < retries"
  shows "snd (fetch_gtfs_rt_data get parse valid error_json retries) \<noteq> Inr None"
proof
  assume "snd (fetch_gtfs_rt_data get parse valid error_json retries) = Inr None"
  then have "[0..<nat retries] = [] \<or> int (last [0..<nat retries]) < retries - 1"
    unfolding fetch_gtfs_rt_data_def py_range_def by (rule for_attempt_None)
  moreover from assms obtain m where "nat retries = Suc m"
    by (cases "nat retries") simp_all
  ultimately show False
    by simp
qed

lemma vehicle_records_timestamp:
  "list_all (\<lambda>r. timestamp r = Some (read_uint (pb_header_timestamp (pb_header feed))))
     (vehicle_records feed es)"
  by (induction es)
    (simp_all add: vehicle_records_def vehicle_data_def py_getattr_def split: option.splits)

section \<open>The concrete inputs, evaluated\<close>

lemma two_vehicle_records:
  "vehicle_records two_vehicle_feed (pb_entity two_vehicle_feed) =
     [vehicle_data two_vehicle_feed (vehicle_entity ''a'' vehicle_a) vehicle_a,
      vehicle_data two_vehicle_feed (vehicle_entity ''b'' vehicle_b) vehicle_b]"
  by (simp add: vehicle_records_def two_vehicle_feed_def vehicle_entity_def)

lemma carriage_records:
  "vehicle_records carriage_feed (pb_entity carriage_feed) =
     [vehicle_data carriage_feed (vehicle_entity ''c'' vehicle_c) vehicle_c,
      vehicle_data carriage_feed (vehicle_entity ''a'' vehicle_a) vehicle_a]"
  by (simp add: vehicle_records_def carriage_feed_def vehicle_entity_def)

lemma two_vehicle_records_valid:
  "list_all dict_list_only (vehicle_records two_vehicle_feed (pb_entity two_vehicle_feed))"
  by (simp add: two_vehicle_records dict_list_only_def vehicle_data_def vehicle_a_def
      vehicle_b_def bare_vehicle_def)

lemma carriage_records_invalid:
  "\<not> list_all dict_list_only (vehicle_records carriage_feed (pb_entity carriage_feed))"
  by (simp add: carriage_records dict_list_only_def vehicle_data_def vehicle_c_def
      bare_vehicle_def)

lemma two_vehicle_records_accepted:
  "find (\<lambda>d. \<not> dict_list_only d)
     (vehicle_records two_vehicle_feed (pb_entity two_vehicle_feed)) = None"
  by (simp add: find_rejected_None two_vehicle_records_valid)

lemma undecodable_records:
  "vehicle_records undecodable_feed (pb_entity undecodable_feed) =
     [vehicle_data undecodable_feed (vehicle_entity ''u'' vehicle_u) vehicle_u,
      vehicle_data undecodable_feed (vehicle_entity ''a'' vehicle_a) vehicle_a]"
  by (simp add: vehicle_records_def undecodable_feed_def vehicle_entity_def)

lemma undecodable_stop_id:
  "stop_id (vehicle_data undecodable_feed (vehicle_entity ''u'' vehicle_u) vehicle_u) =
     Some undecodable"
  by (simp add: vehicle_data_def py_getattr_def read_string_def vehicle_u_def bare_vehicle_def)

lemma undecodable_first_rejected:
  "find (\<lambda>d. \<not> utf8_only d) (vehicle_records undecodable_feed (pb_entity undecodable_feed)) =
     Some (vehicle_data undecodable_feed (vehicle_entity ''u'' vehicle_u) vehicle_u)"
  by (simp add: undecodable_records utf8_only_def undecodable_stop_id)

lemma undecodable_inner_handler:
  "inner_handler json_utf8
     (vehicle_data undecodable_feed (vehicle_entity ''u'' vehicle_u) vehicle_u) =
     ValueError json_failure"
  by (simp add: inner_handler_def json_utf8_def undecodable_stop_id)

lemma delivers_undecodable_feed:
  "delivers sample_parse (Returns (protobuf_response status [3])) undecodable_feed"
  by (simp add: delivers_def protobuf_response_def sample_parse_def)

lemma carriage_first_rejected:
  "find (\<lambda>d. \<not> dict_list_only d) (vehicle_records carriage_feed (pb_entity carriage_feed)) =
     Some (vehicle_data carriage_feed (vehicle_entity ''c'' vehicle_c) vehicle_c)"
  by (simp add: carriage_records dict_list_only_def vehicle_data_def vehicle_c_def
      bare_vehicle_def)

lemma two_vehicle_placeholders:
  "placeholder pb_trip_update (pb_entity two_vehicle_feed) = None"
  "placeholder pb_alert (pb_entity two_vehicle_feed) = None"
  by (simp_all add: placeholder_def two_vehicle_feed_def vehicle_entity_def)

lemma delivers_two_vehicle_feed:
  "delivers sample_parse (Returns (protobuf_response status [1])) two_vehicle_feed"
  by (simp add: delivers_def protobuf_response_def sample_parse_def)

lemma delivers_carriage_feed:
  "delivers sample_parse (Returns (protobuf_response status [2])) carriage_feed"
  by (simp add: delivers_def protobuf_response_def sample_parse_def)

lemma replay_simps:
  "replay [a, b] c 0 = a" "replay [a, b] c (Suc 0) = b" "replay [a, b] c 2 = c"
  by (simp_all add: replay_def)

lemma below_two: "(\<forall>j<2. P j) = (P 0 \<and> P (Suc 0))"
  by (auto simp: less_Suc_eq numeral_2_eq_2)

section \<open>Rejected records and the shape of the outcome\<close>

text \<open>
  A rejected record ends the invocation at the request that fetched it: with
  \<open>ValidationError\<close> when \<open>e.json()\<close> returns for its error, with the \<open>ValueError\<close>
  of \<open>e.json()\<close> otherwise. With \<open>retries\<close> at least 1 an invocation raises or
  returns a result that passes \<open>GTFSRTDataModel\<close> validation; with \<open>retries = 0\<close>
  the loop body never runs and the function returns \<open>None\<close>.
\<close>

lemma rejected_record_aborts:
  assumes "\<forall>j<k. retryable (get j)"
    and "int k < retries"
    and "delivers parse (get k) feed"
    and "find (\<lambda>d. \<not> valid d) (vehicle_records feed (pb_entity feed)) = Some d"
  shows "fetch_gtfs_rt_data get parse valid error_json retries =
           (backoff k @ [HttpGet],
            Inl (case error_json d of Some msg \<Rightarrow> ValueError msg | None \<Rightarrow> ValidationError))"
  using fetch_delivers [OF assms(1-3), of valid error_json] assms(4)
  by (simp add: inner_handler_def)

lemma fetch_raises_or_validated:
  assumes "0 < retries"
  shows "(\<exists>err. snd (fetch_gtfs_rt_data get parse valid error_json retries) = Inl err) \<or>
         (\<exists>result. snd (fetch_gtfs_rt_data get parse valid error_json retries) =
            Inr (Some result) \<and> validate_result valid result = Inr result)"
proof -
  obtain trace outcome where
    f: "fetch_gtfs_rt_data get parse valid error_json retries = (trace, outcome)"
    by (cases "fetch_gtfs_rt_data get parse valid error_json retries")
  show ?thesis
  proof (cases outcome)
    case (Inl err)
    with f show ?thesis by simp
  next
    case (Inr r)
    with f fetch_not_None [OF assms, of get parse valid error_json] obtain result where
      r: "r = Some result"
      by (cases r) simp_all
    with f Inr fetch_success [of get parse valid error_json retries trace result]
    obtain feed where "extract_and_validate valid error_json feed = Inr result"
      by auto
    then have "validate_result valid result = Inr result"
      by (rule validate_result_again)
    with f Inr r show ?thesis by simp
  qed
qed

lemma zero_retries_returns_None:
  "fetch_gtfs_rt_data get parse valid error_json 0 = ([], Inr None)"
  by (simp add: fetch_gtfs_rt_data_def py_range_def)

section \<open>What the code does not look at, and what it never produces\<close>

text \<open>
  The status of a response has no effect on the attempt, and no field of a mapped
  vehicle record is ever \<open>None\<close>: a sub-message that is not on the wire is mapped as
  an empty one is.
\<close>

lemma status_code_ignored:
  "try_block parse valid error_json (Returns (response\<lparr>status_code := status\<rparr>)) =
     try_block parse valid error_json (Returns response)"
  by (simp add: try_block_def)

lemma vehicle_data_never_absent:
  "trip (vehicle_data feed e v) \<noteq> None"
  "vehicle_info (vehicle_data feed e v) \<noteq> None"
  "position (vehicle_data feed e v) \<noteq> None"
  "current_stop_sequence (vehicle_data feed e v) \<noteq> None"
  "stop_id (vehicle_data feed e v) \<noteq> None"
  "current_status (vehicle_data feed e v) \<noteq> None"
  "timestamp (vehicle_data feed e v) \<noteq> None"
  "congestion_level (vehicle_data feed e v) \<noteq> None"
  "occupancy_status (vehicle_data feed e v) \<noteq> None"
  "occupancy_percentage (vehicle_data feed e v) \<noteq> None"
  by (simp_all add: vehicle_data_def py_getattr_def)

lemma absent_trip_as_empty_trip:
  "vehicle_data feed e (v\<lparr>pb_trip_descriptor := None\<rparr>) =
     vehicle_data feed e (v\<lparr>pb_trip_descriptor := Some empty_TripDescriptor\<rparr>)"
  by (simp add: vehicle_data_def read_trip_def read_vehicle_descriptor_def read_position_def)

section \<open>Claims about the response envelope\<close>

text \<open>
  Claim C4. A response whose \<open>Content-Type\<close> header is not
  \<open>application/x-protobuf\<close> (the header may also be missing) makes
  \<open>fetch_gtfs_rt_data\<close> raise the \<open>ValueError\<close> of line 62 at once: after the
  request that got this response there is no sleep and no further request, whatever the
  number of attempts left. When the response answers the first request (\<open>k = 0\<close>)
  exactly one request is issued.
\<close>

theorem content_type_mismatch_fatal:
  assumes "\<forall>j<k. retryable (get j)"
    and "int k < retries"
    and "get k = Returns response"
    and "headers response ''Content-Type'' \<noteq> Some ''application/x-protobuf''"
  shows "fetch_gtfs_rt_data get parse valid error_json retries =
           (backoff k @ [HttpGet],
            Inl (ValueError (content_type_message (headers response ''Content-Type''))))"
proof -
  have "try_block parse valid error_json (get k) =
          Inl (ValueError (content_type_message (headers response ''Content-Type'')))"
    using assms(3,4) by (rule try_block_content_type)
  moreover have "except_clauses
      (ValueError (content_type_message (headers response ''Content-Type''))) retries k =
      Raise (ValueError (content_type_message (headers response ''Content-Type'')))"
    by (simp add: except_clauses_def)
  ultimately have "for_attempt get parse valid error_json retries (k # [Suc k..<nat retries]) =
      ([HttpGet], Inl (ValueError (content_type_message (headers response ''Content-Type''))))"
    by (rule for_attempt_raise)
  with fetch_at [OF assms(1,2), of parse valid error_json] show ?thesis
    by simp
qed

theorem content_type_mismatch_fatal_witness:
  "fetch_gtfs_rt_data (\<lambda>k. Returns html_response) (\<lambda>b. None) (\<lambda>d. True) (\<lambda>d. None) 3 =
     ([HttpGet], Inl (ValueError ''Unexpected content type: text/html''))"
  using content_type_mismatch_fatal
    [of 0 "\<lambda>k. Returns html_response" 3 html_response "\<lambda>b. None" "\<lambda>d. True" "\<lambda>d. None"]
  by (simp add: html_response_def backoff_def content_type_message_def)

text \<open>
  Claim C1, as amended. An empty body with the required content type raises the plain
  \<open>Exception\<close> of line 66, which only the last \<open>except\<close> clause catches, and that
  clause retries: when every response has an empty body, \<open>retries\<close> requests are
  issued, two seconds apart, and the exception of the last one reaches the caller. One
  request is issued only when \<open>retries = 1\<close>.
\<close>

theorem empty_body_retried:
  assumes "0 < retries" and "\<forall>k<nat retries. empty_body (get k)"
  shows "fetch_gtfs_rt_data get parse valid error_json retries =
           (backoff (nat retries - 1) @ [HttpGet],
            Inl (Exception ''No valid GTFS RT data found''))"
proof (rule fetch_last_attempt [OF assms(1)])
  show "\<forall>j<nat retries - 1. retryable (get j)"
    using assms(2) by (simp add: empty_body_retryable)
  have "empty_body (get (nat retries - 1))"
    using assms by simp
  then show "try_block parse valid error_json (get (nat retries - 1)) =
      Inl (Exception ''No valid GTFS RT data found'')"
    by (rule try_block_empty_body)
  show "\<not> is_HTTPError (Exception ''No valid GTFS RT data found'')"
    by simp
qed

theorem empty_body_retried_witness:
  "fetch_gtfs_rt_data (always (Returns (protobuf_response 200 []))) no_feed dict_list_only
     json_text 2 =
     ([HttpGet, Sleep 2, HttpGet], Inl (Exception ''No valid GTFS RT data found''))"
  using empty_body_retried
    [of 2 "always (Returns (protobuf_response 200 []))" no_feed dict_list_only json_text]
  by (simp add: always_def empty_body_def protobuf_response_def backoff_def)

text \<open>
  The claim as the specification has it (no retry, exactly one request) fails for the
  default \<open>retries = 3\<close>: three requests are issued.
\<close>

theorem empty_body_three_requests:
  "empty_body (Returns (protobuf_response 200 [])) \<and>
   fetch_gtfs_rt_data (always (Returns (protobuf_response 200 []))) no_feed dict_list_only json_text 3 =
     ([HttpGet, Sleep 2, HttpGet, Sleep 2, HttpGet],
      Inl (Exception ''No valid GTFS RT data found''))"
proof -
  have e: "empty_body (Returns (protobuf_response 200 []))"
    by (simp add: empty_body_def protobuf_response_def)
  have "fetch_gtfs_rt_data (always (Returns (protobuf_response 200 []))) no_feed
          dict_list_only json_text 3 =
        (backoff (nat 3 - 1) @ [HttpGet], Inl (Exception ''No valid GTFS RT data found''))"
    by (rule fetch_last_attempt)
      (simp_all add: always_def empty_body_retryable [OF e] try_block_empty_body [OF e])
  with e show ?thesis
    by (simp add: three_attempts)
qed

text \<open>
  Claim C3 says that a response with a status other than 2xx is a classified failure.
  The code at a response with status 500, the required content type and a body that
  parses to a valid feed: one request, and the result is returned.
\<close>

theorem server_error_status_processed:
  "fetch_gtfs_rt_data (always (Returns (protobuf_response 500 [1]))) sample_parse
     dict_list_only json_text 3 =
     ([HttpGet],
      Inr (Some \<lparr>vehicle =
                    Some (vehicle_data two_vehicle_feed (vehicle_entity ''b'' vehicle_b) vehicle_b),
                  trip_update = None, alert = None\<rparr>))"
  using fetch_delivers
    [of 0 "always (Returns (protobuf_response 500 [1]))" 3 sample_parse two_vehicle_feed
      dict_list_only json_text]
  by (simp add: always_def delivers_two_vehicle_feed two_vehicle_records_accepted
      two_vehicle_placeholders backoff_0)
    (simp add: two_vehicle_records last_option_def)

section \<open>Claims about retries\<close>

text \<open>
  Claim C2, as amended. \<open>InvalidURL\<close> is a \<open>RequestException\<close>, no clause names
  it, and the \<open>RequestException\<close> clause stands before the \<open>ValueError\<close> clause:
  it is retried like any other request exception. When every call raises it,
  \<open>retries\<close> requests are issued, two seconds apart, and the \<open>InvalidURL\<close> of
  the last one reaches the caller. It fails at once only when \<open>retries = 1\<close>.
\<close>

theorem invalid_url_retried:
  assumes "0 < retries" and "\<forall>k<nat retries. get k = Raises InvalidURL"
  shows "fetch_gtfs_rt_data get parse valid error_json retries =
           (backoff (nat retries - 1) @ [HttpGet], Inl InvalidURL)"
proof (rule fetch_last_attempt [OF assms(1)])
  show "\<forall>j<nat retries - 1. retryable (get j)"
    using assms(2) by (simp add: retryable_def)
  have "get (nat retries - 1) = Raises InvalidURL"
    using assms by simp
  then show "try_block parse valid error_json (get (nat retries - 1)) = Inl InvalidURL"
    by (simp add: try_block_Raises)
  show "\<not> is_HTTPError InvalidURL"
    by simp
qed

theorem invalid_url_retried_witness:
  "fetch_gtfs_rt_data (always (Raises InvalidURL)) no_feed dict_list_only json_text 2 =
     ([HttpGet, Sleep 2, HttpGet], Inl InvalidURL)"
  using invalid_url_retried
    [of 2 "always (Raises InvalidURL)" no_feed dict_list_only json_text]
  by (simp add: always_def backoff_def)

text \<open>
  The claim as the specification has it (never retried) fails for the default
  \<open>retries = 3\<close>: three requests are issued.
\<close>

theorem invalid_url_three_requests:
  "fetch_gtfs_rt_data (always (Raises InvalidURL)) no_feed dict_list_only json_text 3 =
     ([HttpGet, Sleep 2, HttpGet, Sleep 2, HttpGet], Inl InvalidURL)"
proof -
  have "fetch_gtfs_rt_data (always (Raises InvalidURL)) no_feed dict_list_only json_text 3 =
        (backoff (nat 3 - 1) @ [HttpGet], Inl InvalidURL)"
    by (rule fetch_last_attempt)
      (simp_all add: always_def retryable_def try_block_Raises)
  then show ?thesis
    by (simp add: three_attempts)
qed

text \<open>
  Claim C5. With \<open>retries = 3\<close> and a network error at every call, there are
  exactly three requests with one two-second sleep between each two, and the exception
  of the third call itself reaches the caller.
\<close>

theorem network_errors_exhaust_retries:
  assumes "\<forall>k<3. network_error (get k)"
  shows "\<exists>err. get 2 = Raises err \<and>
           fetch_gtfs_rt_data get parse valid error_json 3 =
             ([HttpGet, Sleep 2, HttpGet, Sleep 2, HttpGet], Inl err)"
proof -
  from assms have "network_error (get 2)"
    by simp
  then obtain err where err: "get 2 = Raises err" "\<not> is_HTTPError err"
    by (cases "get 2") (simp_all add: network_error_def)
  have "fetch_gtfs_rt_data get parse valid error_json 3 = (backoff (nat 3 - 1) @ [HttpGet], Inl err)"
  proof (rule fetch_last_attempt)
    show "\<forall>j<nat 3 - 1. retryable (get j)"
      using assms by (simp add: network_error_retryable)
    show "try_block parse valid error_json (get (nat 3 - 1)) = Inl err"
      using err(1) by (simp add: try_block_Raises)
  qed (simp_all add: err(2))
  with err(1) show ?thesis
    by (simp add: three_attempts)
qed

theorem network_errors_exhaust_retries_witness:
  "fetch_gtfs_rt_data (replay [Raises Timeout, Raises ConnectionError] (Raises Timeout))
     no_feed dict_list_only json_text 3 =
     ([HttpGet, Sleep 2, HttpGet, Sleep 2, HttpGet], Inl Timeout)"
  using network_errors_exhaust_retries
    [of "replay [Raises Timeout, Raises ConnectionError] (Raises Timeout)" no_feed dict_list_only json_text]
  by (simp add: replay_def network_error_def less_Suc_eq numeral_3_eq_3 numeral_2_eq_2)

text \<open>
  Claim C6. With \<open>retries = 3\<close>, network errors at the first two calls and, at the
  third, a response that passes the envelope checks, parses and has only valid vehicle
  records, the third attempt returns the validated result: three requests, two sleeps,
  no exception.
\<close>

theorem retry_then_success:
  assumes "network_error (get 0)"
    and "network_error (get 1)"
    and "delivers parse (get 2) feed"
    and "list_all valid (vehicle_records feed (pb_entity feed))"
  shows "fetch_gtfs_rt_data get parse valid error_json 3 =
           ([HttpGet, Sleep 2, HttpGet, Sleep 2, HttpGet],
            Inr (Some \<lparr>vehicle = last_option (vehicle_records feed (pb_entity feed)),
                        trip_update = placeholder pb_trip_update (pb_entity feed),
                        alert = placeholder pb_alert (pb_entity feed)\<rparr>))"
proof -
  have "\<forall>j<2. retryable (get j)"
    using assms(1,2) by (simp add: below_two network_error_retryable)
  moreover have "find (\<lambda>d. \<not> valid d) (vehicle_records feed (pb_entity feed)) = None"
    using assms(4) by (simp add: find_rejected_None)
  ultimately show ?thesis
    using fetch_delivers [of 2 get 3 parse feed valid error_json] assms(3)
    by (simp add: three_attempts)
qed

theorem retry_then_success_witness:
  "fetch_gtfs_rt_data
     (replay [Raises Timeout, Raises ConnectionError] (Returns (protobuf_response 200 [1])))
     sample_parse dict_list_only json_text 3 =
     ([HttpGet, Sleep 2, HttpGet, Sleep 2, HttpGet],
      Inr (Some \<lparr>vehicle =
                    Some (vehicle_data two_vehicle_feed (vehicle_entity ''b'' vehicle_b) vehicle_b),
                  trip_update = None, alert = None\<rparr>))"
  using retry_then_success
    [of "replay [Raises Timeout, Raises ConnectionError] (Returns (protobuf_response 200 [1]))"
      sample_parse two_vehicle_feed dict_list_only json_text]
  by (simp add: replay_simps network_error_def delivers_two_vehicle_feed
      two_vehicle_records_valid two_vehicle_placeholders)
    (simp add: two_vehicle_records last_option_def)

section \<open>Claims about extraction and validation\<close>

text \<open>
  Claim C10. For a feed with two or more vehicle-tagged entities, every mapped record is
  validated in feed order and each overwrites the vehicle slot: if none is rejected the
  result holds the record of the last vehicle-tagged entity and none of the earlier
  ones, and if one is rejected the handler of the first rejected record ends the
  invocation with an exception, at once and whatever the number of attempts left.
\<close>

theorem last_vehicle_wins:
  assumes "\<forall>j<k. retryable (get j)"
    and "int k < retries"
    and "delivers parse (get k) feed"
    and "2 \<le> length (vehicle_records feed (pb_entity feed))"
  shows "fetch_gtfs_rt_data get parse valid error_json retries =
           (backoff k @ [HttpGet],
            case find (\<lambda>d. \<not> valid d) (vehicle_records feed (pb_entity feed)) of
              None \<Rightarrow>
                Inr (Some \<lparr>vehicle = Some (last (vehicle_records feed (pb_entity feed))),
                           trip_update = placeholder pb_trip_update (pb_entity feed),
                           alert = placeholder pb_alert (pb_entity feed)\<rparr>)
            | Some d \<Rightarrow> Inl (inner_handler error_json d))"
proof -
  from assms(4) have "vehicle_records feed (pb_entity feed) \<noteq> []"
    by auto
  with fetch_delivers [OF assms(1-3), of valid error_json] show ?thesis
    by (simp add: last_option_def split: option.splits)
qed

theorem last_vehicle_wins_witness:
  "fetch_gtfs_rt_data (always (Returns (protobuf_response 200 [1]))) sample_parse
     dict_list_only json_text 3 =
     ([HttpGet],
      Inr (Some \<lparr>vehicle =
                    Some (vehicle_data two_vehicle_feed (vehicle_entity ''b'' vehicle_b) vehicle_b),
                  trip_update = None, alert = None\<rparr>))
   \<and> fetch_gtfs_rt_data (always (Returns (protobuf_response 200 [2]))) sample_parse
         dict_list_only json_text 3 = ([HttpGet], Inl ValidationError)"
proof
  show "fetch_gtfs_rt_data (always (Returns (protobuf_response 200 [1]))) sample_parse
     dict_list_only json_text 3 =
     ([HttpGet],
      Inr (Some \<lparr>vehicle =
                    Some (vehicle_data two_vehicle_feed (vehicle_entity ''b'' vehicle_b) vehicle_b),
                  trip_update = None, alert = None\<rparr>))"
    using last_vehicle_wins
      [of 0 "always (Returns (protobuf_response 200 [1]))" 3 sample_parse two_vehicle_feed
        dict_list_only json_text]
    by (simp add: always_def delivers_two_vehicle_feed two_vehicle_records_accepted
        two_vehicle_placeholders backoff_0)
      (simp add: two_vehicle_records)
  show "fetch_gtfs_rt_data (always (Returns (protobuf_response 200 [2]))) sample_parse
      dict_list_only json_text 3 = ([HttpGet], Inl ValidationError)"
    using last_vehicle_wins
      [of 0 "always (Returns (protobuf_response 200 [2]))" 3 sample_parse carriage_feed
        dict_list_only json_text]
    by (simp add: always_def delivers_carriage_feed carriage_first_rejected backoff_0
        inner_handler_def json_text_def)
      (simp add: carriage_records)
qed

text \<open>
  Claim C8 says that a feed with a record that fails validation ends the invocation with
  \<open>ValidationError\<close>. The code at a feed whose first vehicle record is rejected and
  whose error \<open>e.json()\<close> cannot put into text: the \<open>ValueError\<close> of line 106 leaves
  the handler in place of the \<open>ValidationError\<close>, the \<open>ValueError\<close> clause of lines
  142 to 144 raises it again, and after one request the caller has a \<open>ValueError\<close>.
\<close>

theorem rejected_record_raises_ValueError:
  "fetch_gtfs_rt_data (always (Returns (protobuf_response 200 [3]))) sample_parse
     utf8_only json_utf8 3 = ([HttpGet], Inl (ValueError json_failure))"
  using fetch_delivers
    [of 0 "always (Returns (protobuf_response 200 [3]))" 3 sample_parse undecodable_feed
      utf8_only json_utf8]
  by (simp add: always_def delivers_undecodable_feed undecodable_first_rejected
      undecodable_inner_handler backoff_0)

text \<open>
  Claim C9. When the invocation returns a result with a vehicle record, the record's
  \<open>timestamp\<close> is the timestamp read from the header of the feed that the last
  request fetched, and every vehicle record mapped from that feed has the same one; the
  \<open>timestamp\<close> fields of the entities play no part.
\<close>

theorem header_timestamp:
  assumes "fetch_gtfs_rt_data get parse valid error_json retries = (trace, Inr (Some result))"
    and "vehicle result = Some d"
  shows "\<exists>k feed. trace = backoff k @ [HttpGet] \<and> delivers parse (get k) feed \<and>
           timestamp d = Some (read_uint (pb_header_timestamp (pb_header feed))) \<and>
           list_all (\<lambda>r. timestamp r = timestamp d) (vehicle_records feed (pb_entity feed))"
proof -
  from fetch_success [OF assms(1)] obtain k feed where
    trace: "trace = backoff k @ [HttpGet]" and
    feed: "delivers parse (get k) feed" and
    ok: "extract_and_validate valid error_json feed = Inr result"
    by blast
  have all: "list_all (\<lambda>r. timestamp r = Some (read_uint (pb_header_timestamp (pb_header feed))))
      (vehicle_records feed (pb_entity feed))"
    by (rule vehicle_records_timestamp)
  from extract_and_validate_Inr(2) [OF ok] assms(2)
  have "d \<in> set (vehicle_records feed (pb_entity feed))"
    by (auto simp: last_option_def split: if_splits)
  with all have "timestamp d = Some (read_uint (pb_header_timestamp (pb_header feed)))"
    by (simp add: list_all_iff)
  with all trace feed show ?thesis
    by auto
qed

theorem header_timestamp_witness:
  "\<exists>k feed. [HttpGet] = backoff k @ [HttpGet] \<and>
     delivers sample_parse (always (Returns (protobuf_response 200 [1])) k) feed \<and>
     timestamp (vehicle_data two_vehicle_feed (vehicle_entity ''b'' vehicle_b) vehicle_b) =
       Some (read_uint (pb_header_timestamp (pb_header feed))) \<and>
     list_all (\<lambda>r. timestamp r =
         timestamp (vehicle_data two_vehicle_feed (vehicle_entity ''b'' vehicle_b) vehicle_b))
       (vehicle_records feed (pb_entity feed))"
proof -
  have "fetch_gtfs_rt_data (always (Returns (protobuf_response 200 [1]))) sample_parse
      dict_list_only json_text 3 =
      ([HttpGet],
       Inr (Some \<lparr>vehicle =
                    Some (vehicle_data two_vehicle_feed (vehicle_entity ''b'' vehicle_b) vehicle_b),
                  trip_update = None, alert = None\<rparr>))"
    using fetch_delivers
      [of 0 "always (Returns (protobuf_response 200 [1]))" 3 sample_parse two_vehicle_feed
        dict_list_only json_text]
    by (simp add: always_def delivers_two_vehicle_feed two_vehicle_records_accepted
        two_vehicle_placeholders backoff_0)
      (simp add: two_vehicle_records last_option_def)
  then show ?thesis
    by (rule header_timestamp) simp
qed

text \<open>
  Claim C7 says that a field absent on the wire is absent in the mapped record, and an
  absent sub-record is absent and not an empty one. The code at a vehicle position with
  no field set: every field of the mapped record is present with the default of its
  type, the three sub-records are present, and the record is the one of a vehicle
  position whose trip is set and empty.
\<close>

theorem absent_fields_read_as_defaults:
  "vehicle_data two_vehicle_feed (vehicle_entity ''a'' bare_vehicle) bare_vehicle =
     \<lparr>vp_id = ''a'',
      trip = Some \<lparr>trip_id = Some [], route_id = Some [], direction_id = Some 0,
                    start_time = Some [], start_date = Some [],
                    schedule_relationship = Some 0\<rparr>,
      vehicle_info = Some \<lparr>info_id = Some [], label = Some [], license_plate = Some []\<rparr>,
      position = Some \<lparr>latitude = Some 0, longitude = Some 0, bearing = Some 0,
                        odometer = Some 0, speed = Some 0\<rparr>,
      current_stop_sequence = Some 0,
      stop_id = Some [],
      current_status = Some 2,
      timestamp = Some 1700000000,
      congestion_level = Some 0,
      occupancy_status = Some 0,
      occupancy_percentage = Some 0,
      multi_carriage_details = []\<rparr>
   \<and> vehicle_data two_vehicle_feed (vehicle_entity ''a'' bare_vehicle)
         (bare_vehicle\<lparr>pb_trip_descriptor := Some empty_TripDescriptor\<rparr>) =
       vehicle_data two_vehicle_feed (vehicle_entity ''a'' bare_vehicle) bare_vehicle"
  by (simp add: vehicle_data_def py_getattr_def bare_vehicle_def vehicle_entity_def
      two_vehicle_feed_def read_trip_def read_vehicle_descriptor_def read_position_def
      empty_TripDescriptor_def empty_VehicleDescriptor_def empty_Position_def
      read_string_def read_uint_def read_enum_def read_float_def IN_TRANSIT_TO_def)

end
